theory Spec2Isabelle
  imports Complex_Main "HOL-Library.Sublist" "HOL-Library.Char_ord"
begin

section \<open>JavaScript values\<close>

text \<open>
  The filter engine and the validator take \<^verbatim>\<open>any\<close>-typed payloads, so the model works on
  an explicit universe of JavaScript values. A Number is a NaN, an infinity or a rational
  (every finite double is a rational; \<^verbatim>\<open>-0\<close> and \<^verbatim>\<open>+0\<close> are identified, which none of
  the operations used by the engine can tell apart). An object is the list of its own
  properties; the first binding of a key is the one that is read. These are the values
  that records and conditions are made of when they come from JSON or from the form
  inputs; functions and symbols are not among them, so an own property of an object is
  never callable.
\<close>

datatype jsnum = NaN | NegInfinity | Finite rat | PosInfinity

datatype jsval =
    JUndefined
  | JNull
  | JBool bool
  | JNum jsnum
  | JStr string
  | JArr "jsval list"
  | JObj "(string \<times> jsval) list"

datatype error = TypeError

text \<open>A conversion or an evaluator returns \<open>Inr\<close> of its result, or \<open>Inl\<close> of the error it
  throws; \<open>andThen\<close> continues with the result and passes a thrown error on, and
  \<open>collect\<close> runs a list of computations from left to right.\<close>

definition andThen :: "error + 'a \<Rightarrow> ('a \<Rightarrow> error + 'b) \<Rightarrow> error + 'b" where
  "andThen x f = (case x of Inl e \<Rightarrow> Inl e | Inr a \<Rightarrow> f a)"

fun collect :: "(error + 'a) list \<Rightarrow> error + 'a list" where
  "collect [] = Inr []"
| "collect (x # xs) =
     (case x of
        Inl e \<Rightarrow> Inl e
      | Inr a \<Rightarrow> (case collect xs of Inl e \<Rightarrow> Inl e | Inr as \<Rightarrow> Inr (a # as)))"

text \<open>
  The parts of the language runtime that the source calls but does not define: number
  formatting and parsing, Unicode lower-casing, the regular-expression engine, the date
  parser and formatter, and the members a value gets from its prototype chain (for an
  array also its indices and \<^verbatim>\<open>length\<close>). Every function of the model takes the runtime
  as its first argument, and the general theorems hold for every runtime.
  \<^item> \<open>regExpCreate p\<close> is \<^verbatim>\<open>new RegExp(p, 'i')\<close>: \<open>None\<close> when the constructor throws a
    SyntaxError, otherwise the \<^verbatim>\<open>test\<close> method of the compiled expression;
  \<^item> \<open>dateParse s\<close> is the time value of \<^verbatim>\<open>new Date(s)\<close> for a string, \<open>None\<close> for an
    Invalid Date;
  \<^item> \<open>toDateString t\<close> is \<^verbatim>\<open>toDateString()\<close> of a valid date with time value \<open>t\<close>.
\<close>

record runtime =
  numberToString :: "jsnum \<Rightarrow> string"
  stringToNumber :: "string \<Rightarrow> jsnum"
  toLowerCase :: "string \<Rightarrow> string"
  regExpCreate :: "string \<Rightarrow> (string \<Rightarrow> bool) option"
  dateParse :: "string \<Rightarrow> int option"
  toDateString :: "int \<Rightarrow> string"
  inherited :: "jsval \<Rightarrow> string \<Rightarrow> jsval"

subsection \<open>Numbers\<close>

definition num_lt :: "jsnum \<Rightarrow> jsnum \<Rightarrow> bool" where
  "num_lt a b =
     (case (a, b) of
        (Finite x, Finite y) \<Rightarrow> x < y
      | (NegInfinity, Finite y) \<Rightarrow> True
      | (NegInfinity, PosInfinity) \<Rightarrow> True
      | (Finite x, PosInfinity) \<Rightarrow> True
      | _ \<Rightarrow> False)"

definition num_eq :: "jsnum \<Rightarrow> jsnum \<Rightarrow> bool" where
  "num_eq a b = (a \<noteq> NaN \<and> a = b)"

definition num_gt :: "jsnum \<Rightarrow> jsnum \<Rightarrow> bool" where
  "num_gt a b = num_lt b a"

definition num_le :: "jsnum \<Rightarrow> jsnum \<Rightarrow> bool" where
  "num_le a b = (num_lt a b \<or> num_eq a b)"

definition num_ge :: "jsnum \<Rightarrow> jsnum \<Rightarrow> bool" where
  "num_ge a b = num_le b a"

definition isNaN :: "jsnum \<Rightarrow> bool" where
  "isNaN n = (n = NaN)"

definition isFiniteNum :: "jsnum \<Rightarrow> bool" where
  "isFiniteNum n = (case n of Finite r \<Rightarrow> True | _ \<Rightarrow> False)"

subsection \<open>Conversions and operators\<close>

fun truthy :: "jsval \<Rightarrow> bool" where
  "truthy JUndefined = False"
| "truthy JNull = False"
| "truthy (JBool b) = b"
| "truthy (JNum n) = (n \<noteq> NaN \<and> n \<noteq> Finite 0)"
| "truthy (JStr s) = (s \<noteq> [])"
| "truthy (JArr xs) = True"
| "truthy (JObj kvs) = True"

fun typeof :: "jsval \<Rightarrow> string" where
  "typeof JUndefined = ''undefined''"
| "typeof JNull = ''object''"
| "typeof (JBool b) = ''boolean''"
| "typeof (JNum n) = ''number''"
| "typeof (JStr s) = ''string''"
| "typeof (JArr xs) = ''object''"
| "typeof (JObj kvs) = ''object''"

fun isArray :: "jsval \<Rightarrow> bool" where
  "isArray (JArr xs) = True"
| "isArray v = False"

fun elements :: "jsval \<Rightarrow> jsval list" where
  "elements (JArr xs) = xs"
| "elements v = []"

definition isNullish :: "jsval \<Rightarrow> bool" where
  "isNullish v = (v = JNull \<or> v = JUndefined)"

fun join_comma :: "string list \<Rightarrow> string" where
  "join_comma [] = []"
| "join_comma [s] = s"
| "join_comma (s # t # ss) = s @ CHR '','' # join_comma (t # ss)"

definition hasOwn :: "(string \<times> jsval) list \<Rightarrow> string \<Rightarrow> bool" where
  "hasOwn kvs p = (map_of kvs p \<noteq> None)"

text \<open>\<^verbatim>\<open>String(v)\<close>. An array is joined with commas, a null or undefined element printing
  as the empty string and every other element as its own string. A plain object prints as
  \<^verbatim>\<open>[object Object]\<close> through the \<^verbatim>\<open>toString\<close> it inherits; an object with an own
  \<^verbatim>\<open>toString\<close> property shadows that method with a value that is not callable, the
  \<^verbatim>\<open>valueOf\<close> that is tried next gives no primitive (the inherited one returns the
  object, an own one is not callable), and the conversion throws a TypeError.\<close>

fun ToString :: "runtime \<Rightarrow> jsval \<Rightarrow> error + string" where
  "ToString rt JUndefined = Inr ''undefined''"
| "ToString rt JNull = Inr ''null''"
| "ToString rt (JBool b) = Inr (if b then ''true'' else ''false'')"
| "ToString rt (JNum n) = Inr (numberToString rt n)"
| "ToString rt (JStr s) = Inr s"
| "ToString rt (JArr xs) =
     andThen
       (collect (map (\<lambda>x. if x = JUndefined \<or> x = JNull then Inr [] else ToString rt x) xs))
       (\<lambda>ss. Inr (join_comma ss))"
| "ToString rt (JObj kvs) =
     (if hasOwn kvs ''toString'' then Inl TypeError else Inr ''[object Object]'')"

text \<open>\<^verbatim>\<open>Number(v)\<close>. An array or object is converted to a primitive first: its \<^verbatim>\<open>valueOf\<close>
  gives none, so the primitive is its string, and the conversion throws where
  \<^verbatim>\<open>String(v)\<close> does.\<close>

fun ToNumber :: "runtime \<Rightarrow> jsval \<Rightarrow> error + jsnum" where
  "ToNumber rt JUndefined = Inr NaN"
| "ToNumber rt JNull = Inr (Finite 0)"
| "ToNumber rt (JBool b) = Inr (if b then Finite 1 else Finite 0)"
| "ToNumber rt (JNum n) = Inr n"
| "ToNumber rt (JStr s) = Inr (stringToNumber rt s)"
| "ToNumber rt (JArr xs) = andThen (ToString rt (JArr xs)) (\<lambda>s. Inr (stringToNumber rt s))"
| "ToNumber rt (JObj kvs) = andThen (ToString rt (JObj kvs)) (\<lambda>s. Inr (stringToNumber rt s))"

text \<open>The comparison used by \<^verbatim>\<open>Array.prototype.includes\<close>. Arrays and objects compare by
  reference; a record and a condition never share one, so two of them are never the same
  value.\<close>

fun sameValueZero :: "jsval \<Rightarrow> jsval \<Rightarrow> bool" where
  "sameValueZero JUndefined JUndefined = True"
| "sameValueZero JNull JNull = True"
| "sameValueZero (JBool a) (JBool b) = (a = b)"
| "sameValueZero (JNum a) (JNum b) = (a = b)"
| "sameValueZero (JStr a) (JStr b) = (a = b)"
| "sameValueZero v w = False"

definition arrayIncludes :: "jsval list \<Rightarrow> jsval \<Rightarrow> bool" where
  "arrayIncludes xs v = list_ex (\<lambda>x. sameValueZero x v) xs"

text \<open>Property read \<^verbatim>\<open>v[p]\<close> on a value that is neither null nor undefined: an own
  property of an object, otherwise whatever the prototype chain gives.\<close>

fun getProperty :: "runtime \<Rightarrow> jsval \<Rightarrow> string \<Rightarrow> jsval" where
  "getProperty rt (JObj kvs) p =
     (case map_of kvs p of Some v \<Rightarrow> v | None \<Rightarrow> inherited rt (JObj kvs) p)"
| "getProperty rt v p = inherited rt v p"

subsection \<open>Dates\<close>

text \<open>A Date object is its time value in milliseconds, \<open>None\<close> for an Invalid Date.\<close>

definition TimeClip :: "jsnum \<Rightarrow> int option" where
  "TimeClip n =
     (case n of
        Finite r \<Rightarrow>
          if \<bar>r\<bar> > 8640000000000000 then None
          else Some (if 0 \<le> r then \<lfloor>r\<rfloor> else \<lceil>r\<rceil>)
      | _ \<Rightarrow> None)"

text \<open>\<^verbatim>\<open>new Date(v)\<close>: a string is parsed, an array or object is converted to its string
  and parsed, every other value is taken as a number of milliseconds.\<close>

fun newDate :: "runtime \<Rightarrow> jsval \<Rightarrow> error + int option" where
  "newDate rt (JStr s) = Inr (dateParse rt s)"
| "newDate rt (JArr xs) = andThen (ToString rt (JArr xs)) (\<lambda>s. Inr (dateParse rt s))"
| "newDate rt (JObj kvs) = andThen (ToString rt (JObj kvs)) (\<lambda>s. Inr (dateParse rt s))"
| "newDate rt v = andThen (ToNumber rt v) (\<lambda>n. Inr (TimeClip n))"

definition dateToDateString :: "runtime \<Rightarrow> int option \<Rightarrow> string" where
  "dateToDateString rt d = (case d of None \<Rightarrow> ''Invalid Date'' | Some t \<Rightarrow> toDateString rt t)"

definition date_lt :: "int option \<Rightarrow> int option \<Rightarrow> bool" where
  "date_lt a b = (case (a, b) of (Some x, Some y) \<Rightarrow> x < y | _ \<Rightarrow> False)"

definition date_gt :: "int option \<Rightarrow> int option \<Rightarrow> bool" where
  "date_gt a b = date_lt b a"

definition date_le :: "int option \<Rightarrow> int option \<Rightarrow> bool" where
  "date_le a b = (case (a, b) of (Some x, Some y) \<Rightarrow> x \<le> y | _ \<Rightarrow> False)"

definition date_ge :: "int option \<Rightarrow> int option \<Rightarrow> bool" where
  "date_ge a b = date_le b a"

section \<open>The data model\<close>

text \<open>\<^verbatim>\<open>FilterCondition\<close>, \<^verbatim>\<open>FieldDefinition\<close> and \<^verbatim>\<open>ValidationError\<close> of the source. Field
  types and operators are strings at run time, and the evaluator has a branch for a string
  outside the declared unions, so they are strings here. A validation error is an object
  with exactly one of the keys \<^verbatim>\<open>field\<close>, \<^verbatim>\<open>operator\<close>, \<^verbatim>\<open>value\<close> set to a message: the
  constructor says which.\<close>

datatype LogicalOperator = AND | OR

record FilterCondition =
  cid :: string
  field :: string
  fieldType :: string
  operator :: string
  cvalue :: jsval
  nestedKey :: "string option"
  logicalOperator :: "LogicalOperator option"

record FieldDefinition =
  key :: string
  label :: string
  ftype :: string
  operators :: "string list"
  options :: "(string \<times> jsval) list option"
  def_nestedKey :: "string option"

datatype ValidationError = FieldError string | OperatorError string | ValueError string

definition opt :: "string \<Rightarrow> string \<times> jsval" where
  "opt s = (s, JStr s)"

definition fieldDefinitions :: "FieldDefinition list" where
  "fieldDefinitions =
    [\<lparr>key = ''name'', label = ''Name'', ftype = ''text'',
       operators = [''equals'', ''contains'', ''startsWith'', ''endsWith'', ''notContains'', ''regex''],
       options = None, def_nestedKey = None\<rparr>,
     \<lparr>key = ''email'', label = ''Email'', ftype = ''text'',
       operators = [''equals'', ''contains'', ''endsWith'', ''regex''],
       options = None, def_nestedKey = None\<rparr>,
     \<lparr>key = ''department'', label = ''Department'', ftype = ''singleSelect'',
       operators = [''is'', ''isNot''],
       options = Some (map opt [''Engineering'', ''Product'', ''Sales'', ''Marketing'', ''Design'',
         ''Finance'', ''HR'', ''Operations'', ''Legal'']),
       def_nestedKey = None\<rparr>,
     \<lparr>key = ''role'', label = ''Role'', ftype = ''text'',
       operators = [''equals'', ''contains''],
       options = None, def_nestedKey = None\<rparr>,
     \<lparr>key = ''salary'', label = ''Salary'', ftype = ''amount'',
       operators = [''equals'', ''between'', ''greaterThan'', ''lessThan''],
       options = None, def_nestedKey = None\<rparr>,
     \<lparr>key = ''joinDate'', label = ''Join Date'', ftype = ''date'',
       operators = [''equals'', ''before'', ''after'', ''between''],
       options = None, def_nestedKey = None\<rparr>,
     \<lparr>key = ''isActive'', label = ''Active Status'', ftype = ''boolean'',
       operators = [''is''],
       options = None, def_nestedKey = None\<rparr>,
     \<lparr>key = ''skills'', label = ''Skills'', ftype = ''multiSelect'',
       operators = [''in'', ''notIn'', ''containsAll''],
       options = Some (map opt [''React'', ''TypeScript'', ''Node.js'', ''Python'', ''GraphQL'',
         ''PostgreSQL'', ''AWS'', ''Docker'', ''Kubernetes'', ''Vue.js'', ''Angular'', ''Java'', ''Go'',
         ''Scala'', ''Machine Learning'']),
       def_nestedKey = None\<rparr>,
     \<lparr>key = ''address.city'', label = ''City'', ftype = ''text'',
       operators = [''equals'', ''contains''],
       options = None, def_nestedKey = Some ''address.city''\<rparr>,
     \<lparr>key = ''address.state'', label = ''State'', ftype = ''singleSelect'',
       operators = [''is'', ''isNot''],
       options = Some (map opt [''CA'', ''NY'', ''TX'', ''WA'', ''MA'', ''OR'', ''CO'', ''FL'', ''IL'',
         ''GA'', ''AZ'', ''DC'', ''NV'', ''NC'']),
       def_nestedKey = None\<rparr>,
     \<lparr>key = ''projects'', label = ''Number of Projects'', ftype = ''number'',
       operators = [''equals'', ''greaterThan'', ''lessThan'', ''greaterThanOrEqual'',
         ''lessThanOrEqual'', ''between''],
       options = None, def_nestedKey = None\<rparr>,
     \<lparr>key = ''lastReview'', label = ''Last Review Date'', ftype = ''date'',
       operators = [''equals'', ''before'', ''after'', ''between''],
       options = None, def_nestedKey = None\<rparr>,
     \<lparr>key = ''performanceRating'', label = ''Performance Rating'', ftype = ''number'',
       operators = [''equals'', ''greaterThan'', ''lessThan'', ''greaterThanOrEqual'',
         ''lessThanOrEqual'', ''between''],
       options = None, def_nestedKey = None\<rparr>]"

section \<open>The validator\<close>

text \<open>\<^verbatim>\<open>FilterValidator.validateValue\<close>. The first two branches are the two early returns of
  the presence check \<^verbatim>\<open>if (!value && operator !== 'is')\<close>; when neither returns, control
  reaches the \<^verbatim>\<open>switch\<close> on the field type, whose \<^verbatim>\<open>break\<close> and \<^verbatim>\<open>default\<close> end in
  \<^verbatim>\<open>return null\<close>. The result is \<open>Inr\<close> of the returned error object (\<open>None\<close> for
  \<^verbatim>\<open>null\<close>), or \<open>Inl\<close> of the TypeError that a \<^verbatim>\<open>Number(...)\<close> or \<^verbatim>\<open>new Date(...)\<close> of the
  function throws; the conversions run in the order of the source.\<close>

definition validateValue :: "runtime \<Rightarrow> string \<Rightarrow> string \<Rightarrow> jsval \<Rightarrow> error + ValidationError option" where
  "validateValue rt fType oper value =
    (if \<not> truthy value \<and> oper \<noteq> ''is'' \<and> fType = ''multiSelect''
        \<and> (\<not> isArray value \<or> length (elements value) = 0)
     then Inr (Some (ValueError ''Please select at least one value''))
     else if \<not> truthy value \<and> oper \<noteq> ''is'' \<and> fType \<noteq> ''multiSelect''
        \<and> fType \<noteq> ''boolean''
     then Inr (Some (ValueError ''Value is required''))
     else if fType = ''text'' then
       (if truthy value \<and> typeof value \<noteq> ''string''
        then Inr (Some (ValueError ''Text value must be a string'')) else Inr None)
     else if fType = ''number'' \<or> fType = ''amount'' then
       (if oper = ''between'' then
          (if \<not> truthy value \<or> typeof value \<noteq> ''object''
           then Inr (Some (ValueError ''Range values are required''))
           else
             let minV = getProperty rt value ''min''; maxV = getProperty rt value ''max'' in
             if minV = JStr [] \<or> minV = JUndefined \<or> minV = JNull
             then Inr (Some (ValueError ''Minimum value is required''))
             else if maxV = JStr [] \<or> maxV = JUndefined \<or> maxV = JNull
             then Inr (Some (ValueError ''Maximum value is required''))
             else
               andThen (ToNumber rt minV) (\<lambda>minN.
                 if isNaN minN
                 then Inr (Some (ValueError ''Minimum value must be a valid number''))
                 else
                   andThen (ToNumber rt maxV) (\<lambda>maxN.
                     if isNaN maxN
                     then Inr (Some (ValueError ''Maximum value must be a valid number''))
                     else if num_gt minN maxN
                     then Inr (Some (ValueError ''Minimum value cannot be greater than maximum value''))
                     else Inr None)))
        else
          (if value = JStr [] \<or> value = JUndefined \<or> value = JNull
           then Inr (Some (ValueError ''Number value is required''))
           else
             andThen (ToNumber rt value) (\<lambda>n.
               if isNaN n then Inr (Some (ValueError ''Value must be a valid number''))
               else Inr None)))
     else if fType = ''date'' then
       (if oper = ''between'' then
          (if \<not> truthy value \<or> typeof value \<noteq> ''object''
           then Inr (Some (ValueError ''Date range is required''))
           else
             let fromV = getProperty rt value ''from''; toV = getProperty rt value ''to'' in
             if \<not> truthy fromV \<or> fromV = JStr []
             then Inr (Some (ValueError ''Start date is required''))
             else if \<not> truthy toV \<or> toV = JStr []
             then Inr (Some (ValueError ''End date is required''))
             else
               andThen (newDate rt fromV) (\<lambda>fromDate.
                 andThen (newDate rt toV) (\<lambda>toDate.
                   if fromDate = None then Inr (Some (ValueError ''Start date is invalid''))
                   else if toDate = None then Inr (Some (ValueError ''End date is invalid''))
                   else if date_gt fromDate toDate
                   then Inr (Some (ValueError ''Start date cannot be after end date''))
                   else Inr None)))
        else
          (if \<not> truthy value \<or> value = JStr []
           then Inr (Some (ValueError ''Date is required''))
           else
             andThen (newDate rt value) (\<lambda>date.
               if date = None then Inr (Some (ValueError ''Invalid date'')) else Inr None)))
     else if fType = ''singleSelect'' then
       (if \<not> truthy value \<or> value = JStr []
        then Inr (Some (ValueError ''Please select an option'')) else Inr None)
     else if fType = ''multiSelect'' then
       (if \<not> isArray value \<or> length (elements value) = 0
        then Inr (Some (ValueError ''Please select at least one option'')) else Inr None)
     else if fType = ''boolean'' then
       (if value = JNull \<or> value = JUndefined
        then Inr (Some (ValueError ''Please select a value'')) else Inr None)
     else Inr None)"

text \<open>\<^verbatim>\<open>FilterValidator.validateCondition\<close>, its five steps in their order.\<close>

definition validateCondition :: "runtime \<Rightarrow> FilterCondition \<Rightarrow> error + ValidationError option" where
  "validateCondition rt condition =
    (if field condition = [] then Inr (Some (FieldError ''Please select a field''))
     else if operator condition = [] then Inr (Some (OperatorError ''Please select an operator''))
     else
       case find (\<lambda>f. key f = field condition) fieldDefinitions of
         None \<Rightarrow> Inr (Some (FieldError ''Invalid field selected''))
       | Some fieldDef \<Rightarrow>
           if operator condition \<notin> set (operators fieldDef)
           then Inr (Some (OperatorError ''Invalid operator for this field type''))
           else validateValue rt (fieldType condition) (operator condition) (cvalue condition))"

section \<open>The value accessor\<close>

text \<open>\<^verbatim>\<open>path.split('.')\<close>: the pieces between the dots, one piece for a path without a dot
  (also for the empty path).\<close>

fun splitOn :: "char \<Rightarrow> string \<Rightarrow> string list" where
  "splitOn d [] = [[]]"
| "splitOn d (c # cs) =
     (if c = d then [] # splitOn d cs
      else case splitOn d cs of w # ws \<Rightarrow> (c # w) # ws | [] \<Rightarrow> [[c]])"

text \<open>\<^verbatim>\<open>path.split('.').reduce((current, prop) => current?.[prop], obj)\<close>: the optional
  chaining turns a read on null or undefined into undefined.\<close>

definition getNestedValue :: "runtime \<Rightarrow> jsval \<Rightarrow> string \<Rightarrow> jsval" where
  "getNestedValue rt obj path =
     foldl (\<lambda>current prop. if isNullish current then JUndefined else getProperty rt current prop)
       obj (splitOn CHR ''.'' path)"

section \<open>The evaluator\<close>

text \<open>Every evaluator returns \<open>Inr\<close> of its boolean, or \<open>Inl\<close> of the error it throws. The
  places that can throw are the conversions \<^verbatim>\<open>String(...)\<close>, \<^verbatim>\<open>Number(...)\<close> and
  \<^verbatim>\<open>new Date(...)\<close>, the destructuring \<^verbatim>\<open>const { min, max } = filterValue\<close> and the read
  \<^verbatim>\<open>filterValue.from\<close>, the last two a TypeError on null and undefined. The \<^verbatim>\<open>try\<close> block
  of the text evaluator catches what the RegExp constructor and the \<^verbatim>\<open>String(value)\<close>
  inside it throw. The right operand of \<^verbatim>\<open>&&\<close> is evaluated only when the left one is
  true.\<close>

definition evaluateTextFilter :: "runtime \<Rightarrow> jsval \<Rightarrow> string \<Rightarrow> jsval \<Rightarrow> error + bool" where
  "evaluateTextFilter rt value oper filterValue =
    (if value = JNull \<or> value = JUndefined then Inr False
     else
       andThen (ToString rt value) (\<lambda>s.
       andThen (ToString rt filterValue) (\<lambda>f.
         let strValue = toLowerCase rt s; strFilter = toLowerCase rt f in
         if oper = ''equals'' then Inr (strValue = strFilter)
         else if oper = ''contains'' then Inr (sublist strFilter strValue)
         else if oper = ''startsWith'' then Inr (prefix strFilter strValue)
         else if oper = ''endsWith'' then Inr (suffix strFilter strValue)
         else if oper = ''notContains'' then Inr (\<not> sublist strFilter strValue)
         else if oper = ''regex'' then
           (case regExpCreate rt strFilter of
              Some test \<Rightarrow>
                (case ToString rt value of Inr subject \<Rightarrow> Inr (test subject) | Inl e \<Rightarrow> Inr False)
            | None \<Rightarrow> Inr False)
         else Inr True)))"

definition evaluateNumberFilter :: "runtime \<Rightarrow> jsval \<Rightarrow> string \<Rightarrow> jsval \<Rightarrow> error + bool" where
  "evaluateNumberFilter rt value oper filterValue =
    (if value = JNull \<or> value = JUndefined then Inr False
     else
       andThen (ToNumber rt value) (\<lambda>numValue.
         if isNaN numValue then Inr False
         else if oper = ''equals''
         then andThen (ToNumber rt filterValue) (\<lambda>n. Inr (num_eq numValue n))
         else if oper = ''greaterThan''
         then andThen (ToNumber rt filterValue) (\<lambda>n. Inr (num_gt numValue n))
         else if oper = ''lessThan''
         then andThen (ToNumber rt filterValue) (\<lambda>n. Inr (num_lt numValue n))
         else if oper = ''greaterThanOrEqual''
         then andThen (ToNumber rt filterValue) (\<lambda>n. Inr (num_ge numValue n))
         else if oper = ''lessThanOrEqual''
         then andThen (ToNumber rt filterValue) (\<lambda>n. Inr (num_le numValue n))
         else if oper = ''between'' then
           (if isNullish filterValue then Inl TypeError
            else
              let minV = getProperty rt filterValue ''min'';
                  maxV = getProperty rt filterValue ''max'' in
              andThen (ToNumber rt minV) (\<lambda>minN.
                if num_ge numValue minN
                then andThen (ToNumber rt maxV) (\<lambda>maxN. Inr (num_le numValue maxN))
                else Inr False))
         else Inr True))"

definition evaluateDateFilter :: "runtime \<Rightarrow> jsval \<Rightarrow> string \<Rightarrow> jsval \<Rightarrow> error + bool" where
  "evaluateDateFilter rt value oper filterValue =
    (if \<not> truthy value then Inr False
     else
       andThen (newDate rt value) (\<lambda>date.
         if date = None then Inr False
         else if oper = ''equals'' then
           andThen (newDate rt filterValue) (\<lambda>filterDate.
             Inr (dateToDateString rt date = dateToDateString rt filterDate))
         else if oper = ''before''
         then andThen (newDate rt filterValue) (\<lambda>d. Inr (date_lt date d))
         else if oper = ''after''
         then andThen (newDate rt filterValue) (\<lambda>d. Inr (date_gt date d))
         else if oper = ''between'' then
           (if isNullish filterValue then Inl TypeError
            else
              andThen (newDate rt (getProperty rt filterValue ''from'')) (\<lambda>fromDate.
              andThen (newDate rt (getProperty rt filterValue ''to'')) (\<lambda>toDate.
                Inr (date_ge date fromDate \<and> date_le date toDate))))
         else Inr True))"

definition evaluateAmountFilter :: "runtime \<Rightarrow> jsval \<Rightarrow> string \<Rightarrow> jsval \<Rightarrow> error + bool" where
  "evaluateAmountFilter rt value oper filterValue = evaluateNumberFilter rt value oper filterValue"

definition evaluateSelectFilter :: "runtime \<Rightarrow> jsval \<Rightarrow> string \<Rightarrow> jsval \<Rightarrow> error + bool" where
  "evaluateSelectFilter rt value oper filterValue =
    (if value = JNull \<or> value = JUndefined then Inr (oper = ''isNot'')
     else
       andThen (ToString rt value) (\<lambda>s.
       andThen (ToString rt filterValue) (\<lambda>f.
         let matches = (s = f) in
         Inr (if oper = ''is'' then matches else \<not> matches))))"

definition evaluateMultiSelectFilter :: "runtime \<Rightarrow> jsval \<Rightarrow> string \<Rightarrow> jsval \<Rightarrow> error + bool" where
  "evaluateMultiSelectFilter rt value oper filterValue =
    (if \<not> isArray value \<and> \<not> truthy value then Inr (oper = ''notIn'')
     else
       let arr = (if \<not> isArray value then [value] else elements value);
           filterArray = (if isArray filterValue then elements filterValue else [filterValue]) in
       if oper = ''in'' then Inr (list_ex (\<lambda>v. arrayIncludes filterArray v) arr)
       else if oper = ''notIn'' then Inr (\<not> list_ex (\<lambda>v. arrayIncludes filterArray v) arr)
       else if oper = ''containsAll'' then Inr (list_all (\<lambda>f. arrayIncludes arr f) filterArray)
       else Inr True)"

definition evaluateBooleanFilter :: "runtime \<Rightarrow> jsval \<Rightarrow> string \<Rightarrow> jsval \<Rightarrow> error + bool" where
  "evaluateBooleanFilter rt value oper filterValue =
    (let boolValue = truthy value in
     andThen (ToString rt filterValue) (\<lambda>f.
       let boolFilter = (toLowerCase rt f = ''true'') in
       Inr (boolValue = boolFilter)))"

text \<open>\<^verbatim>\<open>condition.nestedKey || condition.field\<close>: a missing or empty nested key gives the
  field.\<close>

definition fieldKey :: "FilterCondition \<Rightarrow> string" where
  "fieldKey condition =
     (case nestedKey condition of
        Some k \<Rightarrow> if k \<noteq> [] then k else field condition
      | None \<Rightarrow> field condition)"

definition evaluateCondition :: "runtime \<Rightarrow> jsval \<Rightarrow> FilterCondition \<Rightarrow> error + bool" where
  "evaluateCondition rt record condition =
    (let value = getNestedValue rt record (fieldKey condition) in
     if fieldType condition = ''text''
     then evaluateTextFilter rt value (operator condition) (cvalue condition)
     else if fieldType condition = ''number''
     then evaluateNumberFilter rt value (operator condition) (cvalue condition)
     else if fieldType condition = ''date''
     then evaluateDateFilter rt value (operator condition) (cvalue condition)
     else if fieldType condition = ''amount''
     then evaluateAmountFilter rt value (operator condition) (cvalue condition)
     else if fieldType condition = ''singleSelect''
     then evaluateSelectFilter rt value (operator condition) (cvalue condition)
     else if fieldType condition = ''multiSelect''
     then evaluateMultiSelectFilter rt value (operator condition) (cvalue condition)
     else if fieldType condition = ''boolean''
     then evaluateBooleanFilter rt value (operator condition) (cvalue condition)
     else Inr True)"

section \<open>The filter set runner\<close>

text \<open>\<^verbatim>\<open>conditions.every\<close> and \<^verbatim>\<open>conditions.some\<close> stop at the first condition that decides
  the result, and \<^verbatim>\<open>data.filter\<close> keeps the records in their order; an error thrown by a
  condition ends the whole call.\<close>

fun every :: "(FilterCondition \<Rightarrow> error + bool) \<Rightarrow> FilterCondition list \<Rightarrow> error + bool" where
  "every p [] = Inr True"
| "every p (c # cs) =
     (case p c of Inl e \<Rightarrow> Inl e | Inr b \<Rightarrow> if b then every p cs else Inr False)"

fun some :: "(FilterCondition \<Rightarrow> error + bool) \<Rightarrow> FilterCondition list \<Rightarrow> error + bool" where
  "some p [] = Inr False"
| "some p (c # cs) =
     (case p c of Inl e \<Rightarrow> Inl e | Inr b \<Rightarrow> if b then Inr True else some p cs)"

fun filterRecords :: "(jsval \<Rightarrow> error + bool) \<Rightarrow> jsval list \<Rightarrow> error + jsval list" where
  "filterRecords p [] = Inr []"
| "filterRecords p (r # rs) =
     (case p r of
        Inl e \<Rightarrow> Inl e
      | Inr b \<Rightarrow>
          (case filterRecords p rs of
             Inl e \<Rightarrow> Inl e
           | Inr kept \<Rightarrow> Inr (if b then r # kept else kept)))"

definition applyFilters :: "runtime \<Rightarrow> jsval list \<Rightarrow> FilterCondition list \<Rightarrow> LogicalOperator \<Rightarrow> error + jsval list" where
  "applyFilters rt data conditions lop =
    (if length conditions = 0 then Inr data
     else filterRecords
       (\<lambda>record.
          if lop = AND then every (\<lambda>condition. evaluateCondition rt record condition) conditions
          else some (\<lambda>condition. evaluateCondition rt record condition) conditions)
       data)"

section \<open>A small runtime for running the model\<close>

text \<open>The examples below are run on this runtime. It covers what they read: ASCII
  lower-casing, decimal integers, dates in the form \<^verbatim>\<open>YYYY-MM-DD\<close> (the form of a date
  input, read as midnight UTC and printed in the UTC time zone), and regular expressions
  made of letters, digits, spaces and single-range classes such as \<^verbatim>\<open>[a-z]\<close>, matched
  anywhere in the subject and without regard to case. As in ECMAScript, a class whose
  lower bound lies above its upper bound is a SyntaxError (\<^verbatim>\<open>[a-B]\<close>: \<^verbatim>\<open>a\<close> is 97, \<^verbatim>\<open>B\<close>
  is 66), and so is an unterminated group \<^verbatim>\<open>(\<close>. Patterns and date strings outside this
  fragment are not recognised and no value has inherited members: the examples read none
  of these.\<close>

definition lowerChar :: "char \<Rightarrow> char" where
  "lowerChar c =
     (case map_of (zip ''ABCDEFGHIJKLMNOPQRSTUVWXYZ'' ''abcdefghijklmnopqrstuvwxyz'') c of
        Some l \<Rightarrow> l | None \<Rightarrow> c)"

definition digitChars :: "char list" where
  "digitChars = ''0123456789''"

definition isAlnum :: "char \<Rightarrow> bool" where
  "isAlnum c = (lowerChar c \<in> set (''abcdefghijklmnopqrstuvwxyz'' @ digitChars))"

fun showNat :: "nat \<Rightarrow> string" where
  "showNat n = (if n < 10 then [digitChars ! n] else showNat (n div 10) @ [digitChars ! (n mod 10)])"

definition sampleNumberToString :: "jsnum \<Rightarrow> string" where
  "sampleNumberToString n =
     (case n of
        NaN \<Rightarrow> ''NaN''
      | PosInfinity \<Rightarrow> ''Infinity''
      | NegInfinity \<Rightarrow> ''-Infinity''
      | Finite r \<Rightarrow> (if r < 0 then ''-'' else []) @ showNat (nat \<lfloor>\<bar>r\<bar>\<rfloor>))"

fun readNat :: "nat \<Rightarrow> string \<Rightarrow> nat option" where
  "readNat acc [] = Some acc"
| "readNat acc (c # cs) =
     (case map_of (zip digitChars [0, 1, 2, 3, 4, 5, 6, 7, 8, 9]) c of
        None \<Rightarrow> None
      | Some d \<Rightarrow> readNat (10 * acc + d) cs)"

definition trimSpaces :: "string \<Rightarrow> string" where
  "trimSpaces s = rev (dropWhile (\<lambda>c. c = CHR '' '') (rev (dropWhile (\<lambda>c. c = CHR '' '') s)))"

definition sampleStringToNumber :: "string \<Rightarrow> jsnum" where
  "sampleStringToNumber s =
     (let t = trimSpaces s in
      if t = [] then Finite 0
      else if t = ''Infinity'' \<or> t = ''+Infinity'' then PosInfinity
      else if t = ''-Infinity'' then NegInfinity
      else if hd t = CHR ''-'' \<and> tl t \<noteq> [] then
        (case readNat 0 (tl t) of Some n \<Rightarrow> Finite (- of_nat n) | None \<Rightarrow> NaN)
      else if hd t = CHR ''+'' \<and> tl t \<noteq> [] then
        (case readNat 0 (tl t) of Some n \<Rightarrow> Finite (of_nat n) | None \<Rightarrow> NaN)
      else (case readNat 0 t of Some n \<Rightarrow> Finite (of_nat n) | None \<Rightarrow> NaN))"

datatype atom = Lit char | Range char char

fun parsePattern :: "string \<Rightarrow> atom list option" where
  "parsePattern [] = Some []"
| "parsePattern (c # cs) =
     (if c = CHR ''['' then
        (case cs of
           lo # d # hi # r # rest \<Rightarrow>
             if d = CHR ''-'' \<and> r = CHR '']'' \<and> isAlnum lo \<and> isAlnum hi \<and> lo \<le> hi
             then map_option (Cons (Range lo hi)) (parsePattern rest)
             else None
         | _ \<Rightarrow> None)
      else if isAlnum c \<or> c = CHR '' ''
      then map_option (Cons (Lit c)) (parsePattern cs)
      else None)"

definition upperChar :: "char \<Rightarrow> char" where
  "upperChar c =
     (case map_of (zip ''abcdefghijklmnopqrstuvwxyz'' ''ABCDEFGHIJKLMNOPQRSTUVWXYZ'') c of
        Some u \<Rightarrow> u | None \<Rightarrow> c)"

fun atomMatches :: "atom \<Rightarrow> char \<Rightarrow> bool" where
  "atomMatches (Lit l) c = (lowerChar l = lowerChar c)"
| "atomMatches (Range lo hi) c =
     list_ex (\<lambda>x. lo \<le> x \<and> x \<le> hi) [c, lowerChar c, upperChar c]"

fun matchesAt :: "atom list \<Rightarrow> string \<Rightarrow> bool" where
  "matchesAt [] s = True"
| "matchesAt (a # as) [] = False"
| "matchesAt (a # as) (c # s) = (atomMatches a c \<and> matchesAt as s)"

definition sampleRegExpCreate :: "string \<Rightarrow> (string \<Rightarrow> bool) option" where
  "sampleRegExpCreate p =
     map_option (\<lambda>atoms s. list_ex (matchesAt atoms) (suffixes s)) (parsePattern p)"

definition isLeapYear :: "int \<Rightarrow> bool" where
  "isLeapYear y = (y mod 4 = 0 \<and> (y mod 100 \<noteq> 0 \<or> y mod 400 = 0))"

definition daysInMonth :: "int \<Rightarrow> int \<Rightarrow> int" where
  "daysInMonth y m =
     (if m = 2 then (if isLeapYear y then 29 else 28)
      else if m = 4 \<or> m = 6 \<or> m = 9 \<or> m = 11 then 30 else 31)"

text \<open>The number of days from 1 January 1970 to a date of the Gregorian calendar, and
  back.\<close>

definition daysFromCivil :: "int \<Rightarrow> int \<Rightarrow> int \<Rightarrow> int" where
  "daysFromCivil y0 m d =
     (let y = (if m \<le> 2 then y0 - 1 else y0);
          era = y div 400;
          yoe = y - era * 400;
          doy = (153 * (if m > 2 then m - 3 else m + 9) + 2) div 5 + d - 1;
          doe = yoe * 365 + yoe div 4 - yoe div 100 + doy
      in era * 146097 + doe - 719468)"

definition civilFromDays :: "int \<Rightarrow> int \<times> int \<times> int" where
  "civilFromDays z0 =
     (let z = z0 + 719468;
          era = z div 146097;
          doe = z - era * 146097;
          yoe = (doe - doe div 1460 + doe div 36524 - doe div 146096) div 365;
          doy = doe - (365 * yoe + yoe div 4 - yoe div 100);
          mp = (5 * doy + 2) div 153;
          d = doy - (153 * mp + 2) div 5 + 1;
          m = (if mp < 10 then mp + 3 else mp - 9);
          y = yoe + era * 400
      in (if m \<le> 2 then y + 1 else y, m, d))"

definition sampleDateParse :: "string \<Rightarrow> int option" where
  "sampleDateParse s =
     (if length s = 10 \<and> s ! 4 = CHR ''-'' \<and> s ! 7 = CHR ''-'' then
        (case (readNat 0 (take 4 s), readNat 0 (take 2 (drop 5 s)), readNat 0 (drop 8 s)) of
           (Some y, Some m, Some d) \<Rightarrow>
             if 1 \<le> m \<and> m \<le> 12 \<and> 1 \<le> d \<and> int d \<le> daysInMonth (int y) (int m)
             then Some (daysFromCivil (int y) (int m) (int d) * 86400000)
             else None
         | _ \<Rightarrow> None)
      else None)"

definition pad :: "nat \<Rightarrow> string \<Rightarrow> string" where
  "pad n s = replicate (n - length s) CHR ''0'' @ s"

definition sampleToDateString :: "int \<Rightarrow> string" where
  "sampleToDateString t =
     (let days = t div 86400000;
          (y, m, d) = civilFromDays days
      in [''Sun'', ''Mon'', ''Tue'', ''Wed'', ''Thu'', ''Fri'', ''Sat''] ! nat ((days + 4) mod 7)
         @ '' '' @
         [''Jan'', ''Feb'', ''Mar'', ''Apr'', ''May'', ''Jun'', ''Jul'', ''Aug'', ''Sep'', ''Oct'',
          ''Nov'', ''Dec''] ! nat (m - 1)
         @ '' '' @ pad 2 (showNat (nat d)) @ '' '' @ pad 4 (showNat (nat y)))"

definition sampleRuntime :: runtime where
  "sampleRuntime =
     \<lparr>numberToString = sampleNumberToString,
      stringToNumber = sampleStringToNumber,
      toLowerCase = map lowerChar,
      regExpCreate = sampleRegExpCreate,
      dateParse = sampleDateParse,
      toDateString = sampleToDateString,
      inherited = (\<lambda>v p. JUndefined)\<rparr>"

section \<open>Reading a validation result\<close>

definition isFieldError :: "error + ValidationError option \<Rightarrow> bool" where
  "isFieldError e = (case e of Inr (Some (FieldError m)) \<Rightarrow> True | _ \<Rightarrow> False)"

section \<open>Plain data\<close>

text \<open>A value is plain data when no object in it has an own \<^verbatim>\<open>toString\<close> property: these
  are the values on which \<^verbatim>\<open>String\<close>, \<^verbatim>\<open>Number\<close> and \<^verbatim>\<open>new Date\<close> do not throw.\<close>

fun plainData :: "jsval \<Rightarrow> bool" where
  "plainData (JArr xs) = list_all plainData xs"
| "plainData (JObj kvs) = (\<not> hasOwn kvs ''toString'' \<and> list_all (\<lambda>kv. plainData (snd kv)) kvs)"
| "plainData v = True"

section \<open>Example records and conditions\<close>

definition num :: "int \<Rightarrow> jsval" where
  "num i = JNum (Finite (of_int i))"

definition employee :: "int \<Rightarrow> string \<Rightarrow> string \<Rightarrow> int \<Rightarrow> string list \<Rightarrow> string \<Rightarrow> jsval" where
  "employee i nm dept sal skills city =
     JObj [(''id'', num i), (''name'', JStr nm), (''department'', JStr dept), (''salary'', num sal),
           (''isActive'', JBool True), (''skills'', JArr (map JStr skills)),
           (''address'', JObj [(''city'', JStr city), (''state'', JStr ''NY''), (''country'', JStr ''USA'')]),
           (''projects'', num 3)]"

definition exJohn :: jsval where
  "exJohn = employee 1 ''John Smith'' ''Engineering'' 95000 [''React'', ''TypeScript'', ''AWS''] ''NYC''"

definition exBob :: jsval where
  "exBob = employee 2 ''Bob'' ''Sales'' 60000 [''Python''] ''Boston''"

definition exAnn :: jsval where
  "exAnn = employee 3 ''Ann Lee'' ''Engineering'' 80000 [''Go''] ''Austin''"

definition exBare :: jsval where
  "exBare = JObj [(''id'', num 7)]"

definition condition :: "string \<Rightarrow> string \<Rightarrow> string \<Rightarrow> jsval \<Rightarrow> FilterCondition" where
  "condition f t oper v =
     \<lparr>cid = ''c'', field = f, fieldType = t, operator = oper, cvalue = v,
      nestedKey = None, logicalOperator = Some AND\<rparr>"

definition exNoOperator :: FilterCondition where
  "exNoOperator = condition ''nickname'' ''text'' [] (JStr ''bob'')"

definition exUnknownField :: FilterCondition where
  "exUnknownField = condition ''nickname'' ''text'' ''equals'' (JStr ''bob'')"

definition exMistyped :: FilterCondition where
  "exMistyped = condition ''department'' ''multiSelect'' ''is'' (JStr ''Engineering'')"


definition exNameContains :: FilterCondition where
  "exNameContains = condition ''name'' ''text'' ''contains'' (JStr ''john'')"

definition exDepartment :: FilterCondition where
  "exDepartment = condition ''department'' ''singleSelect'' ''is'' (JStr ''Engineering'')"

definition exSkills :: FilterCondition where
  "exSkills = condition ''skills'' ''multiSelect'' ''in'' (JArr [JStr ''React'', JStr ''TypeScript''])"

definition exProjectsZero :: FilterCondition where
  "exProjectsZero = condition ''projects'' ''number'' ''equals'' (num 0)"

definition exProjectsInfinity :: FilterCondition where
  "exProjectsInfinity = condition ''projects'' ''number'' ''equals'' (JStr ''Infinity'')"

definition exProjectsText :: FilterCondition where
  "exProjectsText = condition ''projects'' ''number'' ''equals'' (JStr ''42'')"


definition exSkillsZero :: FilterCondition where
  "exSkillsZero = condition ''skills'' ''multiSelect'' ''in'' (JArr [num 0])"

definition exBadRange :: FilterCondition where
  "exBadRange = condition ''name'' ''text'' ''regex'' (JStr ''[a-B]'')"

definition exParen :: FilterCondition where
  "exParen = condition ''name'' ''text'' ''regex'' (JStr ''('')"

definition exSalary :: FilterCondition where
  "exSalary = condition ''salary'' ''amount'' ''greaterThan'' (num 90000)"

definition exNoSkills :: jsval where
  "exNoSkills = JObj [(''id'', num 8), (''skills'', JArr [])]"

definition exScalarSkill :: jsval where
  "exScalarSkill = JObj [(''id'', num 9), (''skills'', JStr ''React'')]"

definition exSingletonSkill :: jsval where
  "exSingletonSkill = JObj [(''id'', num 9), (''skills'', JArr [JStr ''React''])]"

definition exScalarZero :: jsval where
  "exScalarZero = JObj [(''id'', num 10), (''skills'', num 0)]"

definition exSingletonZero :: jsval where
  "exSingletonZero = JObj [(''id'', num 10), (''skills'', JArr [num 0])]"






section \<open>Facts about the registry and the runtime\<close>

lemma registry_keys:
  "map key fieldDefinitions =
     [''name'', ''email'', ''department'', ''role'', ''salary'', ''joinDate'', ''isActive'',
      ''skills'', ''address.city'', ''address.state'', ''projects'', ''lastReview'',
      ''performanceRating'']"
  by (simp add: fieldDefinitions_def)

lemma find_registry_None:
  "field c \<notin> set (map key fieldDefinitions) \<Longrightarrow>
   find (\<lambda>f. key f = field c) fieldDefinitions = None"
  by (force simp: find_None_iff)

lemma registry_nonempty:
  "fd \<in> set fieldDefinitions \<Longrightarrow> key fd \<noteq> [] \<and> [] \<notin> set (operators fd)"
  by (auto simp: fieldDefinitions_def)

lemma find_registry_Some:
  assumes "find (\<lambda>f. key f = field c) fieldDefinitions = Some fd"
  shows "fd \<in> set fieldDefinitions" and "key fd = field c"
  using assms by (auto simp: find_Some_iff)

lemma validateCondition_resolved:
  assumes "find (\<lambda>f. key f = field c) fieldDefinitions = Some fd"
      and "operator c \<in> set (operators fd)"
  shows "validateCondition rt c = validateValue rt (fieldType c) (operator c) (cvalue c)"
proof -
  from assms(1) have fd: "fd \<in> set fieldDefinitions" and k: "key fd = field c"
    by (rule find_registry_Some)+
  from registry_nonempty[OF fd] k have "field c \<noteq> []" by simp
  moreover from registry_nonempty[OF fd] assms(2) have "operator c \<noteq> []" by auto
  ultimately show ?thesis using assms
    by (simp add: validateCondition_def)
qed

lemma find_department:
  "find (\<lambda>f. key f = ''department'') fieldDefinitions = Some (fieldDefinitions ! 2)"
  by (simp add: fieldDefinitions_def)

lemma find_projects:
  "find (\<lambda>f. key f = ''projects'') fieldDefinitions = Some (fieldDefinitions ! 10)"
  by (simp add: fieldDefinitions_def)

lemma fieldKey_simps [simp]:
  "fieldKey (condition f t oper v) = f"
  "fieldKey (c\<lparr>operator := oper\<rparr>) = fieldKey c"
  by (simp_all add: fieldKey_def condition_def split: option.splits)

lemma condition_simps [simp]:
  "field (condition f t oper v) = f"
  "fieldType (condition f t oper v) = t"
  "operator (condition f t oper v) = oper"
  "cvalue (condition f t oper v) = v"
  by (simp_all add: condition_def)

lemma sampleRuntime_simps [simp]:
  "inherited sampleRuntime = (\<lambda>v p. JUndefined)"
  "toLowerCase sampleRuntime = map lowerChar"
  "regExpCreate sampleRuntime = sampleRegExpCreate"
  "stringToNumber sampleRuntime = sampleStringToNumber"
  "numberToString sampleRuntime = sampleNumberToString"
  "dateParse sampleRuntime = sampleDateParse"
  by (simp_all add: sampleRuntime_def)

lemma andThen_simps [simp]:
  "andThen (Inl e) f = Inl e"
  "andThen (Inr a) f = f a"
  by (simp_all add: andThen_def)

lemma returns_Inr:
  assumes "x \<noteq> Inl TypeError"
  obtains a where "x = Inr a"
  using assms by (cases x) (auto intro: error.exhaust)

lemma andThen_returns:
  assumes "x \<noteq> Inl TypeError" and "\<And>a. f a \<noteq> Inl TypeError"
  shows "andThen x f \<noteq> Inl TypeError"
  using assms by (cases x) simp_all

lemma getNestedValue_single:
  "CHR ''.'' \<notin> set p \<Longrightarrow> getNestedValue rt (JObj kvs) p = getProperty rt (JObj kvs) p"
proof -
  assume "CHR ''.'' \<notin> set p"
  then have "splitOn CHR ''.'' p = [p]"
    by (induction p) auto
  then show ?thesis
    by (simp add: getNestedValue_def isNullish_def)
qed

section \<open>Where the conversions and the evaluator can throw\<close>

text \<open>On plain data no conversion throws, and a property read stays within plain data
  when the member it may inherit is plain data.\<close>

lemma collect_returns:
  assumes "list_all (\<lambda>x. x \<noteq> Inl TypeError) xs"
  shows "collect xs \<noteq> Inl TypeError"
  using assms
proof (induction xs)
  case Nil
  then show ?case by simp
next
  case (Cons x xs)
  then show ?case
    by (cases x; cases "collect xs") auto
qed

lemma map_returns:
  assumes "\<And>x. x \<in> set xs \<Longrightarrow> f x \<noteq> Inl TypeError"
  shows "list_all (\<lambda>y. y \<noteq> Inl TypeError) (map f xs)"
  using assms by (induction xs) auto

lemma ToString_plain:
  "plainData v \<Longrightarrow> ToString rt v \<noteq> Inl TypeError"
proof (induction rt v rule: ToString.induct)
  case (6 rt xs)
  have "(if x = JUndefined \<or> x = JNull then Inr [] else ToString rt x) \<noteq> Inl TypeError"
    if "x \<in> set xs" for x
    using that "6.IH"[of x] "6.prems" by (simp add: list_all_iff)
  then have "list_all (\<lambda>x. x \<noteq> Inl TypeError)
      (map (\<lambda>x. if x = JUndefined \<or> x = JNull then Inr [] else ToString rt x) xs)"
    by (rule map_returns)
  then have "collect (map (\<lambda>x. if x = JUndefined \<or> x = JNull then Inr [] else ToString rt x) xs)
      \<noteq> Inl TypeError"
    by (rule collect_returns)
  then show ?case
    by (simp add: andThen_returns)
qed simp_all

lemma ToNumber_plain:
  "plainData v \<Longrightarrow> ToNumber rt v \<noteq> Inl TypeError"
proof (cases v)
  case (JArr xs)
  assume "plainData v"
  from ToString_plain[OF this, of rt] JArr have "ToString rt (JArr xs) \<noteq> Inl TypeError"
    by (simp del: ToString.simps)
  with JArr show ?thesis
    by (simp add: andThen_returns del: ToString.simps)
next
  case (JObj kvs)
  assume "plainData v"
  with JObj show ?thesis by simp
qed simp_all

lemma newDate_plain:
  "plainData v \<Longrightarrow> newDate rt v \<noteq> Inl TypeError"
proof (cases v)
  case (JArr xs)
  assume "plainData v"
  from ToString_plain[OF this, of rt] JArr have "ToString rt (JArr xs) \<noteq> Inl TypeError"
    by (simp del: ToString.simps)
  with JArr show ?thesis
    by (simp add: andThen_returns del: ToString.simps)
next
  case (JObj kvs)
  assume "plainData v"
  with JObj show ?thesis by simp
qed simp_all

lemma getProperty_plain:
  assumes "plainData v" and "plainData (inherited rt v p)"
  shows "plainData (getProperty rt v p)"
proof (cases v)
  case (JObj kvs)
  show ?thesis
  proof (cases "map_of kvs p")
    case None
    with JObj assms(2) show ?thesis by simp
  next
    case (Some x)
    then have "(p, x) \<in> set kvs" by (rule map_of_SomeD)
    with assms(1) JObj have "plainData x"
      by (auto simp: list_all_iff)
    with JObj Some show ?thesis by simp
  qed
qed (use assms(2) in simp_all)

lemma getNestedValue_plain:
  assumes "plainData r" and "\<forall>w p. plainData (inherited rt w p)"
  shows "plainData (getNestedValue rt r path)"
proof -
  have "plainData (foldl (\<lambda>current prop. if isNullish current then JUndefined
      else getProperty rt current prop) v ps)" if "plainData v" for v ps
    using that
  proof (induction ps arbitrary: v)
    case Nil
    then show ?case by simp
  next
    case (Cons q qs)
    have "plainData (if isNullish v then JUndefined else getProperty rt v q)"
      using Cons.prems assms(2) by (simp add: getProperty_plain)
    then show ?case
      using Cons.IH by simp
  qed
  with assms(1) show ?thesis
    by (simp add: getNestedValue_def)
qed

text \<open>Validation admits a Between value only when it is an object, and besides the
  conversions the evaluator throws only on a Between value that is null or undefined.\<close>

lemma validateValue_between_object:
  assumes "validateValue rt ft ''between'' v = Inr None"
      and "ft = ''number'' \<or> ft = ''amount'' \<or> ft = ''date''"
  shows "\<not> isNullish v"
proof
  assume "isNullish v"
  then have f: "\<not> truthy v"
    by (auto simp: isNullish_def)
  from assms(2) have "validateValue rt ft ''between'' v \<noteq> Inr None"
    by (elim disjE) (simp_all add: validateValue_def f)
  with assms(1) show False by simp
qed

lemma evaluateTextFilter_returns:
  assumes "plainData v" and "plainData fv"
  shows "evaluateTextFilter rt v oper fv \<noteq> Inl TypeError"
proof -
  obtain s f where "ToString rt v = Inr s" "ToString rt fv = Inr f"
    using ToString_plain[OF assms(1), of rt] ToString_plain[OF assms(2), of rt]
    by (elim returns_Inr) blast
  then show ?thesis
    by (simp add: evaluateTextFilter_def Let_def split: option.splits)
qed

lemma evaluateNumberFilter_returns:
  assumes "plainData v" and "plainData fv"
      and "plainData (inherited rt fv ''min'')" "plainData (inherited rt fv ''max'')"
      and "oper = ''between'' \<longrightarrow> \<not> isNullish fv"
  shows "evaluateNumberFilter rt v oper fv \<noteq> Inl TypeError"
proof -
  have n: "ToNumber rt v \<noteq> Inl TypeError" and f: "ToNumber rt fv \<noteq> Inl TypeError"
    and lo: "ToNumber rt (getProperty rt fv ''min'') \<noteq> Inl TypeError"
    and hi: "ToNumber rt (getProperty rt fv ''max'') \<noteq> Inl TypeError"
    using assms(1,2,3,4) by (simp_all add: ToNumber_plain getProperty_plain)
  from n f lo hi obtain a b c d where "ToNumber rt v = Inr a" "ToNumber rt fv = Inr b"
      "ToNumber rt (getProperty rt fv ''min'') = Inr c"
      "ToNumber rt (getProperty rt fv ''max'') = Inr d"
    by (elim returns_Inr) blast
  then show ?thesis
    using assms(5) by (simp add: evaluateNumberFilter_def Let_def)
qed

lemma evaluateDateFilter_returns:
  assumes "plainData v" and "plainData fv"
      and "plainData (inherited rt fv ''from'')" "plainData (inherited rt fv ''to'')"
      and "oper = ''between'' \<longrightarrow> \<not> isNullish fv"
  shows "evaluateDateFilter rt v oper fv \<noteq> Inl TypeError"
proof -
  have n: "newDate rt v \<noteq> Inl TypeError" and f: "newDate rt fv \<noteq> Inl TypeError"
    and lo: "newDate rt (getProperty rt fv ''from'') \<noteq> Inl TypeError"
    and hi: "newDate rt (getProperty rt fv ''to'') \<noteq> Inl TypeError"
    using assms(1,2,3,4) by (simp_all add: newDate_plain getProperty_plain)
  from n f lo hi obtain a b c d where "newDate rt v = Inr a" "newDate rt fv = Inr b"
      "newDate rt (getProperty rt fv ''from'') = Inr c"
      "newDate rt (getProperty rt fv ''to'') = Inr d"
    by (elim returns_Inr) blast
  then show ?thesis
    using assms(5) by (simp add: evaluateDateFilter_def Let_def)
qed

lemma evaluateSelectFilter_returns:
  assumes "plainData v" and "plainData fv"
  shows "evaluateSelectFilter rt v oper fv \<noteq> Inl TypeError"
proof -
  obtain s f where "ToString rt v = Inr s" "ToString rt fv = Inr f"
    using ToString_plain[OF assms(1), of rt] ToString_plain[OF assms(2), of rt]
    by (elim returns_Inr) blast
  then show ?thesis
    by (simp add: evaluateSelectFilter_def Let_def)
qed

lemma evaluateMultiSelectFilter_returns:
  "evaluateMultiSelectFilter rt v oper fv \<noteq> Inl e"
  by (simp add: evaluateMultiSelectFilter_def Let_def)

lemma evaluateBooleanFilter_returns:
  assumes "plainData fv"
  shows "evaluateBooleanFilter rt v oper fv \<noteq> Inl TypeError"
  using ToString_plain[OF assms, of rt]
  by (simp add: evaluateBooleanFilter_def Let_def andThen_returns)

lemma validateCondition_None_value:
  assumes "validateCondition rt c = Inr None"
  shows "validateValue rt (fieldType c) (operator c) (cvalue c) = Inr None"
  using assms by (simp add: validateCondition_def split: if_splits option.splits)

lemma evaluateCondition_returns:
  assumes "validateValue rt (fieldType c) (operator c) (cvalue c) = Inr None"
      and "plainData (cvalue c)"
      and "list_all (\<lambda>p. plainData (inherited rt (cvalue c) p)) [''min'', ''max'', ''from'', ''to'']"
      and pv: "plainData (getNestedValue rt r (fieldKey c))"
  shows "evaluateCondition rt r c \<noteq> Inl TypeError"
proof -
  have inh: "plainData (inherited rt (cvalue c) ''min'')" "plainData (inherited rt (cvalue c) ''max'')"
      "plainData (inherited rt (cvalue c) ''from'')" "plainData (inherited rt (cvalue c) ''to'')"
    using assms(3) by simp_all
  have nb: "operator c = ''between'' \<longrightarrow>
      fieldType c = ''number'' \<or> fieldType c = ''amount'' \<or> fieldType c = ''date'' \<longrightarrow>
      \<not> isNullish (cvalue c)"
    using assms(1) validateValue_between_object[of rt "fieldType c" "cvalue c"] by auto
  consider (isText) "fieldType c = ''text''" | (isNumber) "fieldType c = ''number''"
    | (isDate) "fieldType c = ''date''" | (isAmount) "fieldType c = ''amount''"
    | (isSingle) "fieldType c = ''singleSelect''" | (isMulti) "fieldType c = ''multiSelect''"
    | (isBoolean) "fieldType c = ''boolean''"
    | (isOther) "fieldType c \<notin> set [''text'', ''number'', ''date'', ''amount'', ''singleSelect'',
        ''multiSelect'', ''boolean'']"
    by auto
  then show ?thesis
  proof cases
    case isText
    then show ?thesis
      by (simp add: evaluateCondition_def evaluateTextFilter_returns pv assms(2))
  next
    case isNumber
    with nb have "operator c = ''between'' \<longrightarrow> \<not> isNullish (cvalue c)" by simp
    with isNumber show ?thesis
      by (simp add: evaluateCondition_def evaluateNumberFilter_returns pv assms(2) inh)
  next
    case isDate
    with nb have "operator c = ''between'' \<longrightarrow> \<not> isNullish (cvalue c)" by simp
    with isDate show ?thesis
      by (simp add: evaluateCondition_def evaluateDateFilter_returns pv assms(2) inh)
  next
    case isAmount
    with nb have "operator c = ''between'' \<longrightarrow> \<not> isNullish (cvalue c)" by simp
    with isAmount show ?thesis
      by (simp add: evaluateCondition_def evaluateAmountFilter_def evaluateNumberFilter_returns
          pv assms(2) inh)
  next
    case isSingle
    then show ?thesis
      by (simp add: evaluateCondition_def evaluateSelectFilter_returns pv assms(2))
  next
    case isMulti
    then show ?thesis
      by (simp add: evaluateCondition_def evaluateMultiSelectFilter_returns)
  next
    case isBoolean
    then show ?thesis
      by (simp add: evaluateCondition_def evaluateBooleanFilter_returns assms(2))
  next
    case isOther
    then show ?thesis
      by (simp add: evaluateCondition_def)
  qed
qed

section \<open>C1: a condition on a field that is not in the registry\<close>

text \<open>
  C1 claims a FieldError for every condition whose field is not a key of the registry,
  whatever the operator is, also an empty one. The validator tests
  \<^verbatim>\<open>!condition.operator\<close> before it looks the field up, so a non-empty unknown field with
  an empty operator is reported as an OperatorError.
\<close>

theorem C1_counterexample_empty_operator:
  "field exNoOperator \<notin> set (map key fieldDefinitions) \<and>
   validateCondition sampleRuntime exNoOperator =
     Inr (Some (OperatorError ''Please select an operator'')) \<and>
   \<not> isFieldError (validateCondition sampleRuntime exNoOperator)"
  by (simp add: registry_keys exNoOperator_def validateCondition_def isFieldError_def)

text \<open>
  C1, amended: for a condition whose field is not a key of the registry, validation
  returns a FieldError when the field is empty or the operator is not empty, and the
  OperatorError ``Please select an operator'' when the field is not empty and the
  operator is; it never returns a ValueError. The checks run in the order field
  selected, operator selected, field known, operator legal, value shape.
\<close>

theorem validateCondition_unknown_field:
  assumes "field c \<notin> set (map key fieldDefinitions)"
  shows "validateCondition rt c =
     Inr (if field c = [] then Some (FieldError ''Please select a field'')
          else if operator c = [] then Some (OperatorError ''Please select an operator'')
          else Some (FieldError ''Invalid field selected''))"
  using assms by (simp add: validateCondition_def find_registry_None)

theorem validateCondition_unknown_field_witness:
  "field exUnknownField \<notin> set (map key fieldDefinitions) \<and>
   validateCondition sampleRuntime exUnknownField =
     Inr (Some (FieldError ''Invalid field selected''))"
proof -
  have h: "field exUnknownField \<notin> set (map key fieldDefinitions)"
    by (simp add: registry_keys exUnknownField_def)
  from validateCondition_unknown_field[OF h, of sampleRuntime] h show ?thesis
    by (simp add: exUnknownField_def)
qed

section \<open>C2: evaluation of a valid condition\<close>











section \<open>C3: which field type the value checks use\<close>

text \<open>
  C3 claims that the value checks use the type of the field's definition when the
  condition declares another one. The validator passes \<^verbatim>\<open>condition.fieldType\<close> on: the
  department field is a single select, and a condition on it that declares itself a
  multi select is checked as a multi select and rejected, where the single-select check
  accepts the same value.
\<close>

theorem C3_counterexample_declared_type:
  "find (\<lambda>f. key f = field exMistyped) fieldDefinitions = Some (fieldDefinitions ! 2) \<and>
   ftype (fieldDefinitions ! 2) = ''singleSelect'' \<and>
   fieldType exMistyped = ''multiSelect'' \<and>
   operator exMistyped \<in> set (operators (fieldDefinitions ! 2)) \<and>
   validateCondition sampleRuntime exMistyped =
     Inr (Some (ValueError ''Please select at least one option'')) \<and>
   validateValue sampleRuntime (ftype (fieldDefinitions ! 2)) (operator exMistyped) (cvalue exMistyped) =
     Inr None"
proof -
  have d: "fieldDefinitions ! 2 =
    \<lparr>key = ''department'', label = ''Department'', ftype = ''singleSelect'',
       operators = [''is'', ''isNot''],
       options = Some (map opt [''Engineering'', ''Product'', ''Sales'', ''Marketing'', ''Design'',
         ''Finance'', ''HR'', ''Operations'', ''Legal'']),
       def_nestedKey = None\<rparr>"
    by (simp add: fieldDefinitions_def)
  have f: "find (\<lambda>f. key f = field exMistyped) fieldDefinitions = Some (fieldDefinitions ! 2)"
    by (simp add: exMistyped_def find_department)
  have o: "operator exMistyped \<in> set (operators (fieldDefinitions ! 2))"
    by (simp add: d exMistyped_def)
  have "validateCondition sampleRuntime exMistyped =
      validateValue sampleRuntime (fieldType exMistyped) (operator exMistyped) (cvalue exMistyped)"
    by (rule validateCondition_resolved[OF f o])
  then have v: "validateCondition sampleRuntime exMistyped =
      Inr (Some (ValueError ''Please select at least one option''))"
    by (simp add: exMistyped_def validateValue_def)
  have w: "validateValue sampleRuntime ''singleSelect'' ''is'' (JStr ''Engineering'') = Inr None"
    by (simp add: validateValue_def)
  show ?thesis using f v w by (simp add: d exMistyped_def)
qed

text \<open>
  C3, amended: for every condition whose field resolves to a definition and whose
  operator is one of that definition's operators, validation performs the value checks
  on the condition's own declared field type; the type of the definition is not read.
\<close>

theorem validateCondition_uses_declared_type:
  assumes "find (\<lambda>f. key f = field c) fieldDefinitions = Some fd"
      and "operator c \<in> set (operators fd)"
  shows "validateCondition rt c = validateValue rt (fieldType c) (operator c) (cvalue c)"
  using assms by (rule validateCondition_resolved)

theorem validateCondition_uses_declared_type_witness:
  "find (\<lambda>f. key f = field exMistyped) fieldDefinitions = Some (fieldDefinitions ! 2) \<and>
   operator exMistyped \<in> set (operators (fieldDefinitions ! 2)) \<and>
   validateCondition sampleRuntime exMistyped =
     validateValue sampleRuntime ''multiSelect'' ''is'' (JStr ''Engineering'')"
proof -
  have f: "find (\<lambda>f. key f = field exMistyped) fieldDefinitions = Some (fieldDefinitions ! 2)"
    by (simp add: exMistyped_def find_department)
  have o: "operator exMistyped \<in> set (operators (fieldDefinitions ! 2))"
    by (simp add: exMistyped_def fieldDefinitions_def)
  from validateCondition_uses_declared_type[OF f o, of sampleRuntime] f o show ?thesis
    by (simp add: exMistyped_def)
qed

section \<open>C4: a field type outside the seven\<close>



section \<open>C5: NotContains and Contains on text fields\<close>

text \<open>
  C5 claims that NotContains is the negation of Contains for every record, also where
  the record has no value for the field. The text evaluator returns false for a null or
  undefined value before it looks at the operator, so on such a record both operators
  give false.
\<close>

theorem C5_counterexample_absent_value:
  "fieldType exNameContains = ''text'' \<and>
   getNestedValue sampleRuntime exBare (fieldKey exNameContains) = JUndefined \<and>
   evaluateCondition sampleRuntime exBare (exNameContains\<lparr>operator := ''contains''\<rparr>) = Inr False \<and>
   evaluateCondition sampleRuntime exBare (exNameContains\<lparr>operator := ''notContains''\<rparr>) = Inr False"
  by (simp add: exNameContains_def exBare_def getNestedValue_single evaluateCondition_def
      evaluateTextFilter_def)

text \<open>
  C5, amended: for a Text condition and a record whose resolved value is present (neither
  null nor undefined), NotContains returns exactly the negation of Contains; where the
  resolved value is absent, both return false. (Where \<^verbatim>\<open>String\<close> throws on the record
  value or on the filter value, both operators throw.)
\<close>

theorem text_notContains_negates_contains:
  assumes "fieldType c = ''text''"
  shows "let v = getNestedValue rt r (fieldKey c) in
         evaluateCondition rt r (c\<lparr>operator := ''contains''\<rparr>) =
           (if isNullish v then Inr False
            else andThen (ToString rt v) (\<lambda>s. andThen (ToString rt (cvalue c)) (\<lambda>f.
              Inr (sublist (toLowerCase rt f) (toLowerCase rt s))))) \<and>
         evaluateCondition rt r (c\<lparr>operator := ''notContains''\<rparr>) =
           (if isNullish v then Inr False
            else andThen (ToString rt v) (\<lambda>s. andThen (ToString rt (cvalue c)) (\<lambda>f.
              Inr (\<not> sublist (toLowerCase rt f) (toLowerCase rt s)))))"
  using assms
  by (simp add: evaluateCondition_def evaluateTextFilter_def Let_def isNullish_def)

theorem text_notContains_negates_contains_witness:
  "fieldType exNameContains = ''text'' \<and>
   evaluateCondition sampleRuntime exJohn (exNameContains\<lparr>operator := ''contains''\<rparr>) = Inr True \<and>
   evaluateCondition sampleRuntime exJohn (exNameContains\<lparr>operator := ''notContains''\<rparr>) = Inr False"
proof -
  have h: "fieldType exNameContains = ''text''"
    by (simp add: exNameContains_def)
  have v: "getNestedValue sampleRuntime exJohn ''name'' = JStr ''John Smith''"
    by (simp add: exJohn_def employee_def getNestedValue_single)
  have s: "sublist ''john'' ''john smith''"
    by code_simp
  from text_notContains_negates_contains[OF h, of sampleRuntime exJohn] h show ?thesis
    by (simp add: v Let_def isNullish_def exNameContains_def lowerChar_def s)
qed

section \<open>C6: an absent record value and the membership operators\<close>

text \<open>
  C6: for a SingleSelect condition, a record value that is null or undefined matches
  IsNot and does not match Is; for a MultiSelect condition, a record value that is null,
  undefined, the empty array or the empty string matches NotIn and does not match In.
\<close>

theorem absent_value_satisfies_negative_membership:
  assumes "getNestedValue rt r (fieldKey c) = v"
  shows "(fieldType c = ''singleSelect'' \<and> isNullish v \<longrightarrow>
            evaluateCondition rt r (c\<lparr>operator := ''isNot''\<rparr>) = Inr True \<and>
            evaluateCondition rt r (c\<lparr>operator := ''is''\<rparr>) = Inr False) \<and>
         (fieldType c = ''multiSelect'' \<and> (isNullish v \<or> v = JArr [] \<or> v = JStr []) \<longrightarrow>
            evaluateCondition rt r (c\<lparr>operator := ''notIn''\<rparr>) = Inr True \<and>
            evaluateCondition rt r (c\<lparr>operator := ''in''\<rparr>) = Inr False)"
  using assms
  by (auto simp: evaluateCondition_def evaluateSelectFilter_def evaluateMultiSelectFilter_def
      isNullish_def Let_def)

theorem absent_value_satisfies_negative_membership_witness:
  "getNestedValue sampleRuntime exBare (fieldKey exDepartment) = JUndefined \<and>
   fieldType exDepartment = ''singleSelect'' \<and> isNullish JUndefined \<and>
   evaluateCondition sampleRuntime exBare (exDepartment\<lparr>operator := ''isNot''\<rparr>) = Inr True \<and>
   evaluateCondition sampleRuntime exBare (exDepartment\<lparr>operator := ''is''\<rparr>) = Inr False \<and>
   getNestedValue sampleRuntime exNoSkills (fieldKey exSkills) = JArr [] \<and>
   fieldType exSkills = ''multiSelect'' \<and>
   evaluateCondition sampleRuntime exNoSkills (exSkills\<lparr>operator := ''notIn''\<rparr>) = Inr True \<and>
   evaluateCondition sampleRuntime exNoSkills (exSkills\<lparr>operator := ''in''\<rparr>) = Inr False"
proof -
  have a: "getNestedValue sampleRuntime exBare (fieldKey exDepartment) = JUndefined"
    by (simp add: exDepartment_def exBare_def getNestedValue_single)
  have b: "getNestedValue sampleRuntime exNoSkills (fieldKey exSkills) = JArr []"
    by (simp add: exSkills_def exNoSkills_def getNestedValue_single)
  have t: "fieldType exDepartment = ''singleSelect''" "fieldType exSkills = ''multiSelect''"
    by (simp_all add: exDepartment_def exSkills_def)
  from absent_value_satisfies_negative_membership[OF a] absent_value_satisfies_negative_membership[OF b]
    a b t
  show ?thesis by (simp add: isNullish_def)
qed

section \<open>C7: the value of a Number or Amount condition\<close>

text \<open>
  C7 claims that a Number or Amount condition with a legal operator other than Between is
  valid exactly when its value parses as a finite number, and that the value 0 passes the
  presence check. The presence check is \<^verbatim>\<open>!value\<close>, which the number 0 fails: a condition
  ``projects equals 0'' is rejected with ``Value is required''. The number check itself is
  \<^verbatim>\<open>isNaN(Number(value))\<close>, which an infinite value passes.
\<close>

theorem C7_counterexample_zero_and_infinity:
  "find (\<lambda>f. key f = ''projects'') fieldDefinitions = Some (fieldDefinitions ! 10) \<and>
   ''equals'' \<in> set (operators (fieldDefinitions ! 10)) \<and>
   exProjectsZero = condition ''projects'' ''number'' ''equals'' (JNum (Finite 0)) \<and>
   ToNumber sampleRuntime (cvalue exProjectsZero) = Inr (Finite 0) \<and> isFiniteNum (Finite 0) \<and>
   validateCondition sampleRuntime exProjectsZero = Inr (Some (ValueError ''Value is required'')) \<and>
   exProjectsInfinity = condition ''projects'' ''number'' ''equals'' (JStr ''Infinity'') \<and>
   ToNumber sampleRuntime (cvalue exProjectsInfinity) = Inr PosInfinity \<and>
   \<not> isFiniteNum PosInfinity \<and>
   validateCondition sampleRuntime exProjectsInfinity = Inr None"
proof -
  have o: "''equals'' \<in> set (operators (fieldDefinitions ! 10))"
    by (simp add: fieldDefinitions_def)
  have z: "validateCondition sampleRuntime exProjectsZero =
      Inr (Some (ValueError ''Value is required''))"
    using validateCondition_resolved[of exProjectsZero "fieldDefinitions ! 10" sampleRuntime] o
    by (simp add: exProjectsZero_def find_projects validateValue_def num_def)
  have n: "sampleStringToNumber ''Infinity'' = PosInfinity"
    by (simp add: sampleStringToNumber_def trimSpaces_def)
  have i: "validateCondition sampleRuntime exProjectsInfinity = Inr None"
    using validateCondition_resolved[of exProjectsInfinity "fieldDefinitions ! 10" sampleRuntime] o
    by (simp add: exProjectsInfinity_def find_projects validateValue_def n isNaN_def)
  show ?thesis using o z i
    by (simp add: find_projects exProjectsZero_def exProjectsInfinity_def num_def n isFiniteNum_def)
qed

lemma validateValue_number:
  assumes "ft = ''number'' \<or> ft = ''amount''" and "oper \<noteq> ''between''"
  shows "validateValue rt ft oper v =
     (if \<not> truthy v \<and> oper \<noteq> ''is'' then Inr (Some (ValueError ''Value is required''))
      else if v = JStr [] \<or> v = JUndefined \<or> v = JNull
      then Inr (Some (ValueError ''Number value is required''))
      else andThen (ToNumber rt v) (\<lambda>n.
        if isNaN n then Inr (Some (ValueError ''Value must be a valid number''))
        else Inr None))"
  using assms(1)
proof
  assume "ft = ''number''"
  then show ?thesis using assms(2) by (simp add: validateValue_def)
next
  assume "ft = ''amount''"
  then show ?thesis using assms(2) by (simp add: validateValue_def)
qed

text \<open>
  C7, amended: for every Number or Amount condition with an operator other than Between
  that is legal for its field, and a value that is truthy or one of the empty string, null
  and undefined, validation returns no error if and only if the value is present (truthy)
  and \<^verbatim>\<open>Number(value)\<close> is a number other than NaN; an infinite value is accepted. The
  falsy payloads 0, NaN and false are left out of the statement.
\<close>

theorem validate_number_value:
  assumes "find (\<lambda>f. key f = field c) fieldDefinitions = Some fd"
      and "operator c \<in> set (operators fd)"
      and "fieldType c = ''number'' \<or> fieldType c = ''amount''"
      and "operator c \<noteq> ''between''"
      and "truthy (cvalue c) \<or> cvalue c = JStr [] \<or> cvalue c = JNull \<or> cvalue c = JUndefined"
  shows "validateCondition rt c = Inr None \<longleftrightarrow>
           truthy (cvalue c) \<and> (\<exists>n. ToNumber rt (cvalue c) = Inr n \<and> \<not> isNaN n)"
proof -
  have "validateCondition rt c = validateValue rt (fieldType c) (operator c) (cvalue c)"
    using assms(1,2) by (rule validateCondition_resolved)
  also have "\<dots> =
     (if \<not> truthy (cvalue c) \<and> operator c \<noteq> ''is''
      then Inr (Some (ValueError ''Value is required''))
      else if cvalue c = JStr [] \<or> cvalue c = JUndefined \<or> cvalue c = JNull
      then Inr (Some (ValueError ''Number value is required''))
      else andThen (ToNumber rt (cvalue c)) (\<lambda>n.
        if isNaN n then Inr (Some (ValueError ''Value must be a valid number''))
        else Inr None))"
    using assms(3,4) by (rule validateValue_number)
  finally show ?thesis using assms(5)
    by (cases "ToNumber rt (cvalue c)") auto
qed

theorem validate_number_value_witness:
  "find (\<lambda>f. key f = field exProjectsText) fieldDefinitions = Some (fieldDefinitions ! 10) \<and>
   operator exProjectsText \<in> set (operators (fieldDefinitions ! 10)) \<and>
   fieldType exProjectsText = ''number'' \<and> operator exProjectsText \<noteq> ''between'' \<and>
   truthy (cvalue exProjectsText) \<and>
   ToNumber sampleRuntime (cvalue exProjectsText) = Inr (Finite 42) \<and>
   validateCondition sampleRuntime exProjectsText = Inr None"
proof -
  have f: "find (\<lambda>f. key f = field exProjectsText) fieldDefinitions = Some (fieldDefinitions ! 10)"
    by (simp add: exProjectsText_def find_projects)
  have o: "operator exProjectsText \<in> set (operators (fieldDefinitions ! 10))"
    by (simp add: exProjectsText_def fieldDefinitions_def)
  have t: "fieldType exProjectsText = ''number'' \<or> fieldType exProjectsText = ''amount''"
    by (simp add: exProjectsText_def)
  have b: "operator exProjectsText \<noteq> ''between''"
    by (simp add: exProjectsText_def)
  have v: "truthy (cvalue exProjectsText) \<or> cvalue exProjectsText = JStr [] \<or>
      cvalue exProjectsText = JNull \<or> cvalue exProjectsText = JUndefined"
    by (simp add: exProjectsText_def)
  have n: "ToNumber sampleRuntime (cvalue exProjectsText) = Inr (Finite 42)"
    by (simp add: exProjectsText_def sampleStringToNumber_def trimSpaces_def digitChars_def)
  from validate_number_value[OF f o t b v, of sampleRuntime] f o b n show ?thesis
    by (simp add: isNaN_def exProjectsText_def)
qed

section \<open>C8: a scalar record value under a MultiSelect condition\<close>

text \<open>
  C8 claims that a scalar record value is evaluated as the one-element sequence holding
  it, also for the falsy scalars 0, false and the empty string. The evaluator wraps a
  scalar only after \<^verbatim>\<open>if (!value) return operator === 'notIn'\<close>, so a falsy scalar is
  treated as an absent value: the record value 0 does not match In [0], the record value
  [0] does.
\<close>

theorem C8_counterexample_falsy_scalar:
  "fieldType exSkillsZero = ''multiSelect'' \<and> operator exSkillsZero = ''in'' \<and>
   getNestedValue sampleRuntime exScalarZero (fieldKey exSkillsZero) = num 0 \<and>
   getNestedValue sampleRuntime exSingletonZero (fieldKey exSkillsZero) = JArr [num 0] \<and>
   evaluateCondition sampleRuntime exScalarZero exSkillsZero = Inr False \<and>
   evaluateCondition sampleRuntime exSingletonZero exSkillsZero = Inr True"
  by (simp add: exSkillsZero_def exScalarZero_def exSingletonZero_def getNestedValue_single
      evaluateCondition_def evaluateMultiSelectFilter_def num_def arrayIncludes_def)

text \<open>
  C8, amended: for a MultiSelect condition and every operator, a truthy scalar record
  value is evaluated exactly as the one-element sequence holding it; a falsy scalar (0,
  NaN, false, the empty string, null, undefined) is treated as an absent value, which
  matches NotIn and no other operator.
\<close>

theorem scalar_evaluated_as_singleton:
  assumes "fieldType c = ''multiSelect''"
      and "getNestedValue rt r1 (fieldKey c) = v"
      and "getNestedValue rt r2 (fieldKey c) = JArr [v]"
      and "\<not> isArray v"
  shows "evaluateCondition rt r1 c =
     (if truthy v then evaluateCondition rt r2 c else Inr (operator c = ''notIn''))"
  using assms
  by (simp add: evaluateCondition_def evaluateMultiSelectFilter_def Let_def)

theorem scalar_evaluated_as_singleton_witness:
  "fieldType exSkills = ''multiSelect'' \<and>
   getNestedValue sampleRuntime exScalarSkill (fieldKey exSkills) = JStr ''React'' \<and>
   getNestedValue sampleRuntime exSingletonSkill (fieldKey exSkills) = JArr [JStr ''React''] \<and>
   \<not> isArray (JStr ''React'') \<and> truthy (JStr ''React'') \<and>
   evaluateCondition sampleRuntime exScalarSkill exSkills =
     evaluateCondition sampleRuntime exSingletonSkill exSkills \<and>
   evaluateCondition sampleRuntime exSingletonSkill exSkills = Inr True"
proof -
  have t: "fieldType exSkills = ''multiSelect''"
    by (simp add: exSkills_def)
  have a: "getNestedValue sampleRuntime exScalarSkill (fieldKey exSkills) = JStr ''React''"
    by (simp add: exSkills_def exScalarSkill_def getNestedValue_single)
  have b: "getNestedValue sampleRuntime exSingletonSkill (fieldKey exSkills) = JArr [JStr ''React'']"
    by (simp add: exSkills_def exSingletonSkill_def getNestedValue_single)
  have n: "\<not> isArray (JStr ''React'')" by simp
  have e: "evaluateCondition sampleRuntime exSingletonSkill exSkills = Inr True"
    using b by (simp add: evaluateCondition_def evaluateMultiSelectFilter_def exSkills_def
        arrayIncludes_def)
  from scalar_evaluated_as_singleton[OF t a b n] t a b e show ?thesis by simp
qed

section \<open>C9: a regular expression that does not compile\<close>

text \<open>The \<^verbatim>\<open>try\<close> block: when the constructor throws on the pattern it is given, the
  evaluator returns false and nothing propagates.\<close>

lemma regex_compile_failure_is_caught:
  assumes "fieldType c = ''text''" and "operator c = ''regex''"
      and "ToString rt (cvalue c) = Inr f" and "regExpCreate rt (toLowerCase rt f) = None"
      and "plainData (getNestedValue rt r (fieldKey c))"
  shows "evaluateCondition rt r c = Inr False"
proof -
  obtain s where "ToString rt (getNestedValue rt r (fieldKey c)) = Inr s"
    using ToString_plain[OF assms(5), of rt] by (elim returns_Inr)
  with assms(1,2,3,4) show ?thesis
    by (simp add: evaluateCondition_def evaluateTextFilter_def Let_def)
qed

lemma unterminated_group_never_matches:
  assumes "plainData r"
  shows "evaluateCondition sampleRuntime r exParen = Inr False"
proof -
  have "sampleRegExpCreate ''('' = None"
    by code_simp
  then have "regExpCreate sampleRuntime (toLowerCase sampleRuntime ''('') = None"
    by (simp add: lowerChar_def)
  moreover have "plainData (getNestedValue sampleRuntime r (fieldKey exParen))"
    using assms by (intro getNestedValue_plain) simp_all
  ultimately show ?thesis
    by (intro regex_compile_failure_is_caught[where f = "''(''"]) (simp_all add: exParen_def)
qed

text \<open>
  C9 says that a Text condition with operator Regex whose filter value does not compile
  matches no record. The pattern handed to the constructor is not the filter value but
  its lower-cased copy \<^verbatim>\<open>strFilter\<close>, and lower-casing can turn a pattern that does not
  compile into one that does: \<^verbatim>\<open>[a-B]\<close> is a SyntaxError (range out of order), its
  lower-cased copy \<^verbatim>\<open>[a-b]\<close> compiles and matches the name \<^verbatim>\<open>Bob\<close>, so the condition
  evaluates to true on that record.
\<close>

theorem C9_lowercased_pattern_matches:
  "fieldType exBadRange = ''text'' \<and> operator exBadRange = ''regex'' \<and>
   cvalue exBadRange = JStr ''[a-B]'' \<and>
   ToString sampleRuntime (cvalue exBadRange) = Inr ''[a-B]'' \<and>
   regExpCreate sampleRuntime ''[a-B]'' = None \<and>
   toLowerCase sampleRuntime ''[a-B]'' = ''[a-b]'' \<and>
   getNestedValue sampleRuntime exBob (fieldKey exBadRange) = JStr ''Bob'' \<and>
   evaluateCondition sampleRuntime exBob exBadRange = Inr True"
proof -
  have n: "sampleRegExpCreate ''[a-B]'' = None"
    by code_simp
  have "map_option (\<lambda>t. t ''Bob'') (sampleRegExpCreate ''[a-b]'') = Some True"
    by code_simp
  then obtain t where t: "sampleRegExpCreate ''[a-b]'' = Some t" "t ''Bob''"
    by auto
  have l: "map lowerChar ''[a-B]'' = ''[a-b]''"
    by (simp add: lowerChar_def)
  have g: "getNestedValue sampleRuntime exBob ''name'' = JStr ''Bob''"
    by (simp add: exBob_def employee_def getNestedValue_single)
  have e: "evaluateCondition sampleRuntime exBob exBadRange = Inr True"
    using t l by (simp add: evaluateCondition_def evaluateTextFilter_def exBadRange_def g)
  show ?thesis using n l g e
    by (simp add: exBadRange_def)
qed

section \<open>C10: the AND result lies within the OR result\<close>

lemma every_True_some:
  assumes "cs \<noteq> []" and "every p cs = Inr True"
  shows "some p cs = Inr True"
proof (cases cs)
  case Nil
  with assms(1) show ?thesis by simp
next
  case (Cons c cs')
  with assms(2) have "p c = Inr True"
    by (auto split: sum.splits if_splits)
  with Cons show ?thesis by simp
qed

lemma filterRecords_subseq:
  assumes "\<And>r. pa r = Inr True \<Longrightarrow> po r = Inr True"
      and "filterRecords pa data = Inr xs"
      and "filterRecords po data = Inr ys"
  shows "subseq xs ys"
  using assms(2,3)
proof (induction data arbitrary: xs ys)
  case Nil
  then show ?case by simp
next
  case (Cons r rs)
  from Cons.prems(1) obtain a xs' where a: "pa r = Inr a" "filterRecords pa rs = Inr xs'"
      "xs = (if a then r # xs' else xs')"
    by (auto split: sum.splits)
  from Cons.prems(2) obtain b ys' where b: "po r = Inr b" "filterRecords po rs = Inr ys'"
      "ys = (if b then r # ys' else ys')"
    by (auto split: sum.splits)
  have sub: "subseq xs' ys'"
    using a(2) b(2) by (rule Cons.IH)
  show ?case
  proof (cases a)
    case True
    with a(1) have "po r = Inr True" by (simp add: assms(1))
    with b(1) have "b" by simp
    with True a(3) b(3) sub show ?thesis by simp
  next
    case False
    with a(3) b(3) sub show ?thesis by auto
  qed
qed

lemma every_returns:
  assumes "list_all (\<lambda>c. p c \<noteq> Inl TypeError) cs"
  shows "every p cs \<noteq> Inl TypeError"
  using assms
proof (induction cs)
  case Nil
  then show ?case by simp
next
  case (Cons c cs)
  then show ?case by (cases "p c") auto
qed

lemma some_returns:
  assumes "list_all (\<lambda>c. p c \<noteq> Inl TypeError) cs"
  shows "some p cs \<noteq> Inl TypeError"
  using assms
proof (induction cs)
  case Nil
  then show ?case by simp
next
  case (Cons c cs)
  then show ?case by (cases "p c") auto
qed

lemma filterRecords_returns:
  assumes "\<And>r. r \<in> set data \<Longrightarrow> p r \<noteq> Inl TypeError"
  shows "\<exists>xs. filterRecords p data = Inr xs"
  using assms
proof (induction data)
  case Nil
  show ?case by simp
next
  case (Cons r rs)
  then obtain xs where xs: "filterRecords p rs = Inr xs" by auto
  from Cons.prems[of r] obtain b where "p r = Inr b"
    by (cases "p r") (auto intro: error.exhaust)
  with xs show ?case by simp
qed

lemma applyFilters_returns:
  assumes "list_all (\<lambda>r. list_all (\<lambda>c. evaluateCondition rt r c \<noteq> Inl TypeError) conds) data"
  shows "\<exists>xs. applyFilters rt data conds lop = Inr xs"
proof (cases "length conds = 0")
  case True
  then show ?thesis by (simp add: applyFilters_def)
next
  case False
  let ?p = "\<lambda>r. if lop = AND then every (\<lambda>condition. evaluateCondition rt r condition) conds
      else some (\<lambda>condition. evaluateCondition rt r condition) conds"
  have "\<And>r. r \<in> set data \<Longrightarrow> ?p r \<noteq> Inl TypeError"
    using assms by (simp add: every_returns some_returns list_all_iff)
  then have "\<exists>xs. filterRecords ?p data = Inr xs"
    by (rule filterRecords_returns)
  with False show ?thesis by (simp add: applyFilters_def)
qed

lemma valid_conditions_evaluate:
  assumes "list_all (\<lambda>c. validateCondition rt c = Inr None \<and> plainData (cvalue c)) conds"
      and "list_all plainData data"
      and "\<forall>w p. plainData (inherited rt w p)"
  shows "list_all (\<lambda>r. list_all (\<lambda>c. evaluateCondition rt r c \<noteq> Inl TypeError) conds) data"
proof -
  have "evaluateCondition rt r c \<noteq> Inl TypeError" if "r \<in> set data" "c \<in> set conds" for r c
  proof (rule evaluateCondition_returns)
    show "validateValue rt (fieldType c) (operator c) (cvalue c) = Inr None"
      using assms(1) that(2) by (intro validateCondition_None_value) (simp add: list_all_iff)
    show "plainData (cvalue c)"
      using assms(1) that(2) by (simp add: list_all_iff)
    show "list_all (\<lambda>p. plainData (inherited rt (cvalue c) p)) [''min'', ''max'', ''from'', ''to'']"
      using assms(3) by simp
    have "plainData r"
      using assms(2) that(1) by (simp add: list_all_iff)
    then show "plainData (getNestedValue rt r (fieldKey c))"
      using assms(3) by (rule getNestedValue_plain)
  qed
  then show ?thesis
    by (simp add: list_all_iff)
qed

text \<open>
  C10: for every list of records and every non-empty list of conditions, the records that
  \<^verbatim>\<open>applyFilters\<close> keeps under AND are among those it keeps under OR, in the same order.
  Both calls return when no condition throws on a record of the list (by
  \<open>valid_conditions_evaluate\<close>, when the conditions are valid and all values plain data);
  whenever both return, the inclusion holds.
\<close>

theorem applyFilters_AND_within_OR:
  assumes "conds \<noteq> []"
  shows "(list_all (\<lambda>r. list_all (\<lambda>c. evaluateCondition rt r c \<noteq> Inl TypeError) conds) data \<longrightarrow>
           (\<exists>xs ys. applyFilters rt data conds AND = Inr xs \<and> applyFilters rt data conds OR = Inr ys)) \<and>
         (\<forall>xs ys. applyFilters rt data conds AND = Inr xs \<and> applyFilters rt data conds OR = Inr ys \<longrightarrow>
           subseq xs ys \<and> set xs \<subseteq> set ys)"
proof (intro conjI impI allI)
  assume "list_all (\<lambda>r. list_all (\<lambda>c. evaluateCondition rt r c \<noteq> Inl TypeError) conds) data"
  then show "\<exists>xs ys. applyFilters rt data conds AND = Inr xs \<and> applyFilters rt data conds OR = Inr ys"
    using applyFilters_returns[of rt conds data AND] applyFilters_returns[of rt conds data OR]
    by blast
next
  fix xs ys
  assume r: "applyFilters rt data conds AND = Inr xs \<and> applyFilters rt data conds OR = Inr ys"
  let ?pa = "\<lambda>r. every (\<lambda>condition. evaluateCondition rt r condition) conds"
  let ?po = "\<lambda>r. some (\<lambda>condition. evaluateCondition rt r condition) conds"
  from r assms have a: "filterRecords ?pa data = Inr xs" and o: "filterRecords ?po data = Inr ys"
    by (simp_all add: applyFilters_def)
  have "\<And>r. ?pa r = Inr True \<Longrightarrow> ?po r = Inr True"
    using assms by (rule every_True_some)
  then show s: "subseq xs ys"
    using a o by (rule filterRecords_subseq)
  then show "set xs \<subseteq> set ys"
    by (auto elim: list_emb_set)
qed

theorem applyFilters_AND_within_OR_witness:
  "[exDepartment, exSalary] \<noteq> [] \<and>
   list_all (\<lambda>r. list_all (\<lambda>c. evaluateCondition sampleRuntime r c \<noteq> Inl TypeError)
     [exDepartment, exSalary]) [exJohn, exBob, exAnn] \<and>
   applyFilters sampleRuntime [exJohn, exBob, exAnn] [exDepartment, exSalary] AND = Inr [exJohn] \<and>
   applyFilters sampleRuntime [exJohn, exBob, exAnn] [exDepartment, exSalary] OR = Inr [exJohn, exAnn] \<and>
   subseq [exJohn] [exJohn, exAnn] \<and> set [exJohn] \<subseteq> set [exJohn, exAnn]"
proof -
  have g: "getNestedValue sampleRuntime (employee i nm dept sal sk city) ''department'' = JStr dept"
      "getNestedValue sampleRuntime (employee i nm dept sal sk city) ''salary'' = num sal"
    for i nm dept sal sk city
    by (simp_all add: employee_def getNestedValue_single)
  have d: "evaluateCondition sampleRuntime (employee i nm dept sal sk city) exDepartment =
      Inr (dept = ''Engineering'')" for i nm dept sal sk city
    by (simp add: evaluateCondition_def exDepartment_def g evaluateSelectFilter_def)
  have s: "evaluateCondition sampleRuntime (employee i nm dept sal sk city) exSalary =
      Inr (90000 < sal)" for i nm dept sal sk city
    by (simp add: evaluateCondition_def exSalary_def g evaluateAmountFilter_def
        evaluateNumberFilter_def num_def isNaN_def num_gt_def num_lt_def)
  have a: "applyFilters sampleRuntime [exJohn, exBob, exAnn] [exDepartment, exSalary] AND = Inr [exJohn]"
    by (simp add: applyFilters_def exJohn_def exBob_def exAnn_def d s)
  have o: "applyFilters sampleRuntime [exJohn, exBob, exAnn] [exDepartment, exSalary] OR = Inr [exJohn, exAnn]"
    by (simp add: applyFilters_def exJohn_def exBob_def exAnn_def d s)
  have n: "[exDepartment, exSalary] \<noteq> []" by simp
  have t: "list_all (\<lambda>r. list_all (\<lambda>c. evaluateCondition sampleRuntime r c \<noteq> Inl TypeError)
     [exDepartment, exSalary]) [exJohn, exBob, exAnn]"
    by (simp add: exJohn_def exBob_def exAnn_def d s)
  from applyFilters_AND_within_OR[OF n, of sampleRuntime "[exJohn, exBob, exAnn]"] a o t
  show ?thesis by simp
qed

end
